theory Spec2Isabelle
  imports Complex_Main
begin

section \<open>openvox::math vector operations (VectorMath.hpp)\<close>

text \<open>
  The header defines function templates over \<open>Vector2<T>\<close>, \<open>Vector3<T>\<close> and
  \<open>Vector4<T>\<close>. The component type \<open>T\<close> is a type variable here, and the operators the
  code applies to it (\<open>+\<close>, \<open>-\<close>, \<open>*\<close>, \<open>/\<close>) are those of the syntactic type classes,
  which carry no law: a theorem stated at such a type holds whatever the arithmetic of
  \<open>T\<close> is. Theorems that need algebra say so in their sort (\<open>comm_ring\<close>, \<open>field\<close>,
  \<open>linorder\<close>) or are stated over \<open>real\<close>, the exact arithmetic of the specification.
  The type \<open>float\<close> below instantiates \<open>T\<close> with the range and the special values of
  a floating-point type. C++ overloads one name per arity; the arity is a suffix of the
  name here.
\<close>

subsection \<open>The vector types\<close>

text \<open>
  Modelled from the spec: the class templates \<open>Vector2\<close>, \<open>Vector3\<close>, \<open>Vector4\<close> are
  not part of the header. A vector is an ordered tuple of 2, 3 or 4 components of type
  \<open>T\<close>, built from its components and read by the names \<open>x\<close>, \<open>y\<close>, \<open>z\<close>, \<open>w\<close>.
\<close>

datatype 'a Vector2 = Vector2 (x: 'a) (y: 'a)

datatype 'a Vector3 = Vector3 (x: 'a) (y: 'a) (z: 'a)

datatype 'a Vector4 = Vector4 (x: 'a) (y: 'a) (z: 'a) (w: 'a)

text \<open>The components of a vector in index order (\<open>v[0]\<close>, \<open>v[1]\<close>, ...).\<close>

definition components2 :: "'a Vector2 \<Rightarrow> 'a list" where
  "components2 v = [Vector2.x v, Vector2.y v]"

definition components3 :: "'a Vector3 \<Rightarrow> 'a list" where
  "components3 v = [Vector3.x v, Vector3.y v, Vector3.z v]"

definition components4 :: "'a Vector4 \<Rightarrow> 'a list" where
  "components4 v = [Vector4.x v, Vector4.y v, Vector4.z v, Vector4.w v]"

text \<open>
  Modelled from the spec: the operators of the vector classes that \<open>normalize\<close> uses,
  \<open>v * s\<close> and \<open>v / s\<close> with a scalar \<open>s\<close> (scalar broadcast multiply and divide), and
  the unary minus \<open>-v\<close> (componentwise negation).
\<close>

definition mul_scalar2 :: "('a::times) Vector2 \<Rightarrow> 'a \<Rightarrow> 'a Vector2" where
  "mul_scalar2 v s = Vector2 (Vector2.x v * s) (Vector2.y v * s)"

definition mul_scalar3 :: "('a::times) Vector3 \<Rightarrow> 'a \<Rightarrow> 'a Vector3" where
  "mul_scalar3 v s = Vector3 (Vector3.x v * s) (Vector3.y v * s) (Vector3.z v * s)"

definition mul_scalar4 :: "('a::times) Vector4 \<Rightarrow> 'a \<Rightarrow> 'a Vector4" where
  "mul_scalar4 v s =
     Vector4 (Vector4.x v * s) (Vector4.y v * s) (Vector4.z v * s) (Vector4.w v * s)"

definition div_scalar2 :: "('a::inverse) Vector2 \<Rightarrow> 'a \<Rightarrow> 'a Vector2" where
  "div_scalar2 v s = Vector2 (Vector2.x v / s) (Vector2.y v / s)"

definition div_scalar3 :: "('a::inverse) Vector3 \<Rightarrow> 'a \<Rightarrow> 'a Vector3" where
  "div_scalar3 v s = Vector3 (Vector3.x v / s) (Vector3.y v / s) (Vector3.z v / s)"

definition div_scalar4 :: "('a::inverse) Vector4 \<Rightarrow> 'a \<Rightarrow> 'a Vector4" where
  "div_scalar4 v s =
     Vector4 (Vector4.x v / s) (Vector4.y v / s) (Vector4.z v / s) (Vector4.w v / s)"


subsection \<open>The scalar functions\<close>

text \<open>
  The scalar functions of \<open>openvox::math\<close> and \<open>std\<close> that the header calls are not
  part of it. \<open>sqrt\<close> and \<open>fastInverseSqrt\<close> are parameters of the functions that call
  them (\<open>sqrt_s\<close>, \<open>fastInverseSqrt\<close>), and so is the scalar function of \<open>VEC_FCALL\<close>
  (\<open>func\<close>, the macro's own parameter).

  Modelled from the spec: the scalar \<open>openvox::math::clamp\<close>, which is missing, has the
  standard single-scalar semantics: the value raised to the lower bound, then lowered to
  the upper bound.
\<close>

definition clamp_s :: "('a::linorder) \<Rightarrow> 'a \<Rightarrow> 'a \<Rightarrow> 'a" where
  "clamp_s a minVal maxVal = min (max a minVal) maxVal"

subsection \<open>dot\<close>

definition dot2 :: "('a::{plus,times}) Vector2 \<Rightarrow> 'a Vector2 \<Rightarrow> 'a" where
  "dot2 v1 v2 = Vector2.x v1 * Vector2.x v2 + Vector2.y v1 * Vector2.y v2"

definition dot3 :: "('a::{plus,times}) Vector3 \<Rightarrow> 'a Vector3 \<Rightarrow> 'a" where
  "dot3 v1 v2 =
     Vector3.x v1 * Vector3.x v2 + Vector3.y v1 * Vector3.y v2 + Vector3.z v1 * Vector3.z v2"

definition dot4 :: "('a::{plus,times}) Vector4 \<Rightarrow> 'a Vector4 \<Rightarrow> 'a" where
  "dot4 v1 v2 =
     Vector4.x v1 * Vector4.x v2 + Vector4.y v1 * Vector4.y v2 + Vector4.z v1 * Vector4.z v2
       + Vector4.w v1 * Vector4.w v2"

subsection \<open>length and lengthSquared\<close>

definition length2 :: "('a \<Rightarrow> 'a) \<Rightarrow> ('a::{plus,times}) Vector2 \<Rightarrow> 'a" where
  "length2 sqrt_s v = sqrt_s (Vector2.x v * Vector2.x v + Vector2.y v * Vector2.y v)"

definition length3 :: "('a \<Rightarrow> 'a) \<Rightarrow> ('a::{plus,times}) Vector3 \<Rightarrow> 'a" where
  "length3 sqrt_s v =
     sqrt_s (Vector3.x v * Vector3.x v + Vector3.y v * Vector3.y v + Vector3.z v * Vector3.z v)"

definition length4 :: "('a \<Rightarrow> 'a) \<Rightarrow> ('a::{plus,times}) Vector4 \<Rightarrow> 'a" where
  "length4 sqrt_s v =
     sqrt_s (Vector4.x v * Vector4.x v + Vector4.y v * Vector4.y v + Vector4.z v * Vector4.z v
       + Vector4.w v * Vector4.w v)"

definition lengthSquared2 :: "('a::{plus,times}) Vector2 \<Rightarrow> 'a" where
  "lengthSquared2 v = Vector2.x v * Vector2.x v + Vector2.y v * Vector2.y v"

definition lengthSquared3 :: "('a::{plus,times}) Vector3 \<Rightarrow> 'a" where
  "lengthSquared3 v =
     Vector3.x v * Vector3.x v + Vector3.y v * Vector3.y v + Vector3.z v * Vector3.z v"

definition lengthSquared4 :: "('a::{plus,times}) Vector4 \<Rightarrow> 'a" where
  "lengthSquared4 v =
     Vector4.x v * Vector4.x v + Vector4.y v * Vector4.y v + Vector4.z v * Vector4.z v
       + Vector4.w v * Vector4.w v"

subsection \<open>cross\<close>

definition cross :: "('a::{minus,times}) Vector3 \<Rightarrow> 'a Vector3 \<Rightarrow> 'a Vector3" where
  "cross v1 v2 =
     Vector3 (Vector3.y v1 * Vector3.z v2 - Vector3.z v1 * Vector3.y v2)
             (Vector3.z v1 * Vector3.x v2 - Vector3.x v1 * Vector3.z v2)
             (Vector3.x v1 * Vector3.y v2 - Vector3.y v1 * Vector3.x v2)"

subsection \<open>normalize\<close>

text \<open>
  \<open>OPENVOX_MATH_FAST\<close> is a preprocessor symbol: the first argument says whether the
  build defines it. The default build does not (accurate mode).
\<close>

definition normalize2 ::
  "bool \<Rightarrow> ('a \<Rightarrow> 'a) \<Rightarrow> ('a \<Rightarrow> 'a) \<Rightarrow> ('a::{plus,times,inverse}) Vector2 \<Rightarrow> 'a Vector2" where
  "normalize2 OPENVOX_MATH_FAST sqrt_s fastInverseSqrt v =
     (if OPENVOX_MATH_FAST then mul_scalar2 v (fastInverseSqrt (lengthSquared2 v))
      else div_scalar2 v (length2 sqrt_s v))"

definition normalize3 ::
  "bool \<Rightarrow> ('a \<Rightarrow> 'a) \<Rightarrow> ('a \<Rightarrow> 'a) \<Rightarrow> ('a::{plus,times,inverse}) Vector3 \<Rightarrow> 'a Vector3" where
  "normalize3 OPENVOX_MATH_FAST sqrt_s fastInverseSqrt v =
     (if OPENVOX_MATH_FAST then mul_scalar3 v (fastInverseSqrt (lengthSquared3 v))
      else div_scalar3 v (length3 sqrt_s v))"

definition normalize4 ::
  "bool \<Rightarrow> ('a \<Rightarrow> 'a) \<Rightarrow> ('a \<Rightarrow> 'a) \<Rightarrow> ('a::{plus,times,inverse}) Vector4 \<Rightarrow> 'a Vector4" where
  "normalize4 OPENVOX_MATH_FAST sqrt_s fastInverseSqrt v =
     (if OPENVOX_MATH_FAST then mul_scalar4 v (fastInverseSqrt (lengthSquared4 v))
      else div_scalar4 v (length4 sqrt_s v))"

subsection \<open>VEC_FCALL: the generated elementwise functions\<close>

text \<open>
  \<open>VEC_FCALL(name, func)\<close> expands to three function templates \<open>name\<close>, one per arity,
  that apply \<open>func\<close> to each component. The macro is a function of \<open>func\<close>; each of the
  twenty functions it generates (\<open>sin\<close>, \<open>cos\<close>, \<open>tan\<close>, \<open>acos\<close>, \<open>asin\<close>, \<open>atan\<close>, \<open>abs\<close>,
  \<open>floor\<close>, \<open>ceil\<close>, \<open>trunc\<close>, \<open>round\<close>, \<open>fract\<close>, \<open>sign\<close>, \<open>radians\<close>, \<open>degrees\<close>, \<open>sqrt\<close>,
  \<open>exp\<close>, \<open>exp2\<close>, \<open>log\<close>, \<open>log2\<close>) is the macro at its scalar function.
\<close>

definition VEC_FCALL2 :: "('a \<Rightarrow> 'a) \<Rightarrow> 'a Vector2 \<Rightarrow> 'a Vector2" where
  "VEC_FCALL2 func v = Vector2 (func (Vector2.x v)) (func (Vector2.y v))"

definition VEC_FCALL3 :: "('a \<Rightarrow> 'a) \<Rightarrow> 'a Vector3 \<Rightarrow> 'a Vector3" where
  "VEC_FCALL3 func v = Vector3 (func (Vector3.x v)) (func (Vector3.y v)) (func (Vector3.z v))"

definition VEC_FCALL4 :: "('a \<Rightarrow> 'a) \<Rightarrow> 'a Vector4 \<Rightarrow> 'a Vector4" where
  "VEC_FCALL4 func v =
     Vector4 (func (Vector4.x v)) (func (Vector4.y v)) (func (Vector4.z v)) (func (Vector4.w v))"

subsection \<open>clamp\<close>

definition clamp2 :: "('a::linorder) Vector2 \<Rightarrow> 'a \<Rightarrow> 'a \<Rightarrow> 'a Vector2" where
  "clamp2 v minVal maxVal =
     Vector2 (clamp_s (Vector2.x v) minVal maxVal) (clamp_s (Vector2.y v) minVal maxVal)"

definition clamp3 :: "('a::linorder) Vector3 \<Rightarrow> 'a \<Rightarrow> 'a \<Rightarrow> 'a Vector3" where
  "clamp3 v minVal maxVal =
     Vector3 (clamp_s (Vector3.x v) minVal maxVal) (clamp_s (Vector3.y v) minVal maxVal)
             (clamp_s (Vector3.z v) minVal maxVal)"

definition clamp4 :: "('a::linorder) Vector4 \<Rightarrow> 'a \<Rightarrow> 'a \<Rightarrow> 'a Vector4" where
  "clamp4 v minVal maxVal =
     Vector4 (clamp_s (Vector4.x v) minVal maxVal) (clamp_s (Vector4.y v) minVal maxVal)
             (clamp_s (Vector4.z v) minVal maxVal) (clamp_s (Vector4.w v) minVal maxVal)"

subsection \<open>A floating-point component type\<close>

text \<open>
  \<open>dot\<close> and \<open>cross\<close> accept only IEC 559 component types. The type \<open>float\<close> has the
  range and the special values of the 32-bit format: a finite value, the two infinities
  and NaN. A result whose magnitude reaches \<open>2^128 - 2^103\<close> overflows to an infinity
  (round to nearest), infinity minus infinity and zero times infinity are NaN, and a
  finite value divided by an infinity is zero. Results inside the range are kept exact:
  the rounding to 24 significant bits, the subnormal numbers and the sign of zero are not
  part of the type, so it stands for the C++ type only where every result is
  representable or overflows.
\<close>

datatype float = Finite real | PInf | NInf | NaN

definition range_f :: "real \<Rightarrow> float" where
  "range_f r = (if 2 ^ 128 - 2 ^ 103 \<le> r then PInf
      else if r \<le> - (2 ^ 128 - 2 ^ 103) then NInf else Finite r)"

instantiation float :: "{plus,minus,uminus,times,divide}"
begin

fun uminus_float :: "float \<Rightarrow> float" where
  "uminus_float (Finite a) = Finite (- a)"
| "uminus_float PInf = NInf"
| "uminus_float NInf = PInf"
| "uminus_float NaN = NaN"

fun plus_float :: "float \<Rightarrow> float \<Rightarrow> float" where
  "plus_float NaN _ = NaN"
| "plus_float _ NaN = NaN"
| "plus_float PInf NInf = NaN"
| "plus_float NInf PInf = NaN"
| "plus_float PInf _ = PInf"
| "plus_float _ PInf = PInf"
| "plus_float NInf _ = NInf"
| "plus_float _ NInf = NInf"
| "plus_float (Finite a) (Finite b) = range_f (a + b)"

definition minus_float :: "float \<Rightarrow> float \<Rightarrow> float" where
  "minus_float a b = a + (- b)"

fun times_float :: "float \<Rightarrow> float \<Rightarrow> float" where
  "times_float NaN _ = NaN"
| "times_float _ NaN = NaN"
| "times_float (Finite a) (Finite b) = range_f (a * b)"
| "times_float (Finite a) PInf = (if a = 0 then NaN else if 0 < a then PInf else NInf)"
| "times_float (Finite a) NInf = (if a = 0 then NaN else if 0 < a then NInf else PInf)"
| "times_float PInf (Finite b) = (if b = 0 then NaN else if 0 < b then PInf else NInf)"
| "times_float NInf (Finite b) = (if b = 0 then NaN else if 0 < b then NInf else PInf)"
| "times_float PInf PInf = PInf"
| "times_float PInf NInf = NInf"
| "times_float NInf PInf = NInf"
| "times_float NInf NInf = PInf"

fun divide_float :: "float \<Rightarrow> float \<Rightarrow> float" where
  "divide_float NaN _ = NaN"
| "divide_float _ NaN = NaN"
| "divide_float (Finite a) (Finite b) =
     (if b = 0 then (if a = 0 then NaN else if 0 < a then PInf else NInf) else range_f (a / b))"
| "divide_float (Finite a) _ = Finite 0"
| "divide_float PInf (Finite b) = (if 0 \<le> b then PInf else NInf)"
| "divide_float NInf (Finite b) = (if 0 \<le> b then NInf else PInf)"
| "divide_float _ _ = NaN"

instance ..

end

instantiation float :: inverse
begin

definition inverse_float :: "float \<Rightarrow> float" where
  "inverse_float a = divide (Finite 1) a"

instance ..

end






section \<open>Properties\<close>

subsection \<open>length and lengthSquared\<close>

text \<open>
  C1. At every arity, \<open>length(v)\<close> is the scalar square root applied to
  \<open>lengthSquared(v)\<close>: the two functions compute the same sum of squares, in the same
  order of operations, and \<open>length\<close> passes it to \<open>sqrt\<close>. This holds for every component
  type and every scalar \<open>sqrt\<close>, with no law of arithmetic used.
\<close>

theorem length_eq_sqrt_lengthSquared:
  "length2 sqrt_s v2 = sqrt_s (lengthSquared2 v2) \<and>
   length3 sqrt_s v3 = sqrt_s (lengthSquared3 v3) \<and>
   length4 sqrt_s v4 = sqrt_s (lengthSquared4 v4)"
  by (simp add: length2_def length3_def length4_def
      lengthSquared2_def lengthSquared3_def lengthSquared4_def)

subsection \<open>dot\<close>

text \<open>
  C2. \<open>dot(v1, v2)\<close> is the sum of the products of the components of the same index:
  \<open>v1.x*v2.x + v1.y*v2.y\<close> at arity 2, with \<open>+ v1.z*v2.z\<close> at arity 3 and
  \<open>+ v1.w*v2.w\<close> at arity 4, the products added from left to right. The first three
  equations hold for every component type; over the reals the result is the sum of the
  pairwise products over all component indices. The scenario of the specification:
  \<open>dot(Vector3(1,0,0), Vector3(0,1,0)) == 0\<close>.
\<close>

theorem dot_sum_of_products:
  "dot2 (Vector2 a1 a2) (Vector2 b1 b2) = a1 * b1 + a2 * b2 \<and>
   dot3 (Vector3 c1 c2 c3) (Vector3 d1 d2 d3) = c1 * d1 + c2 * d2 + c3 * d3 \<and>
   dot4 (Vector4 e1 e2 e3 e4) (Vector4 f1 f2 f3 f4) = e1 * f1 + e2 * f2 + e3 * f3 + e4 * f4 \<and>
   dot2 (p2 :: real Vector2) q2 = sum_list (map2 (*) (components2 p2) (components2 q2)) \<and>
   dot3 (p3 :: real Vector3) q3 = sum_list (map2 (*) (components3 p3) (components3 q3)) \<and>
   dot4 (p4 :: real Vector4) q4 = sum_list (map2 (*) (components4 p4) (components4 q4)) \<and>
   dot3 (Vector3 1 0 0) (Vector3 0 1 0) = (0 :: real)"
  by (simp add: dot2_def dot3_def dot4_def components2_def components3_def components4_def)

subsection \<open>cross\<close>

text \<open>
  C4. For 3-component vectors, \<open>cross(v1, v2)\<close> is the vector
  \<open>(v1.y*v2.z - v1.z*v2.y, v1.z*v2.x - v1.x*v2.z, v1.x*v2.y - v1.y*v2.x)\<close>, for every
  component type; in particular \<open>cross(Vector3(1,0,0), Vector3(0,1,0))\<close> is
  \<open>Vector3(0,0,1)\<close>.
\<close>

theorem cross_formula:
  "cross (Vector3 a1 a2 a3) (Vector3 b1 b2 b3) =
     Vector3 (a2 * b3 - a3 * b2) (a3 * b1 - a1 * b3) (a1 * b2 - a2 * b1) \<and>
   cross (Vector3 1 0 0) (Vector3 0 1 0) = Vector3 0 0 (1 :: real)"
  by (simp add: cross_def)



text \<open>
  C10. Over exact arithmetic (a commutative ring), the cross product is orthogonal to
  both of its arguments: \<open>dot(cross(v1, v2), v1) == 0\<close> and
  \<open>dot(cross(v1, v2), v2) == 0\<close>.
\<close>

theorem cross_orthogonal:
  fixes v1 v2 :: "('a::comm_ring) Vector3"
  shows "dot3 (cross v1 v2) v1 = 0 \<and> dot3 (cross v1 v2) v2 = 0"
  by (simp add: cross_def dot3_def algebra_simps)

subsection \<open>normalize\<close>















text \<open>
  C9. Where \<open>fastInverseSqrt(a)\<close> is exactly \<open>1 / sqrt(a)\<close> and arithmetic is exact (a
  field), fast mode, \<open>v * fastInverseSqrt(lengthSquared(v))\<close>, and accurate mode,
  \<open>v / length(v)\<close>, return the same vector for every vector of non-zero length, at
  arities 2, 3 and 4.
\<close>

theorem normalize_fast_eq_accurate:
  fixes sqrt_s fastInverseSqrt :: "('a::field) \<Rightarrow> 'a"
  assumes "\<forall>a. fastInverseSqrt a = 1 / sqrt_s a"
  shows "(length2 sqrt_s v2 \<noteq> 0 \<longrightarrow>
            normalize2 True sqrt_s fastInverseSqrt v2 = normalize2 False sqrt_s fastInverseSqrt v2) \<and>
         (length3 sqrt_s v3 \<noteq> 0 \<longrightarrow>
            normalize3 True sqrt_s fastInverseSqrt v3 = normalize3 False sqrt_s fastInverseSqrt v3) \<and>
         (length4 sqrt_s v4 \<noteq> 0 \<longrightarrow>
            normalize4 True sqrt_s fastInverseSqrt v4 = normalize4 False sqrt_s fastInverseSqrt v4)"
  using assms
  by (simp add: normalize2_def normalize3_def normalize4_def
      mul_scalar2_def mul_scalar3_def mul_scalar4_def
      div_scalar2_def div_scalar3_def div_scalar4_def
      length2_def length3_def length4_def
      lengthSquared2_def lengthSquared3_def lengthSquared4_def divide_inverse)

theorem normalize_fast_eq_accurate_witness:
  "(\<forall>a. (\<lambda>a. 1 / sqrt a) a = 1 / sqrt a) \<and>
   length2 sqrt (Vector2 3 4) \<noteq> 0 \<and>
   normalize2 True sqrt (\<lambda>a. 1 / sqrt a) (Vector2 3 4)
     = normalize2 False sqrt (\<lambda>a. 1 / sqrt a) (Vector2 3 4) \<and>
   length3 sqrt (Vector3 1 2 2) \<noteq> 0 \<and>
   normalize3 True sqrt (\<lambda>a. 1 / sqrt a) (Vector3 1 2 2)
     = normalize3 False sqrt (\<lambda>a. 1 / sqrt a) (Vector3 1 2 2) \<and>
   length4 sqrt (Vector4 1 1 1 1) \<noteq> 0 \<and>
   normalize4 True sqrt (\<lambda>a. 1 / sqrt a) (Vector4 1 1 1 1)
     = normalize4 False sqrt (\<lambda>a. 1 / sqrt a) (Vector4 1 1 1 1)"
proof -
  have fis: "\<forall>a. (\<lambda>a. 1 / sqrt a) a = 1 / sqrt a" by simp
  have nz: "length2 sqrt (Vector2 3 4) \<noteq> 0" "length3 sqrt (Vector3 1 2 2) \<noteq> 0"
    "length4 sqrt (Vector4 1 1 1 1) \<noteq> 0"
    by (simp_all add: length2_def length3_def length4_def)
  show ?thesis
    using fis nz
      normalize_fast_eq_accurate
        [OF fis, of "Vector2 3 4" "Vector3 1 2 2" "Vector4 1 1 1 1"]
    by blast
qed

subsection \<open>VEC_FCALL\<close>

text \<open>
  C7. For every scalar function \<open>func\<close>, and so for each of the twenty generated
  functions, the function that \<open>VEC_FCALL\<close> generates returns a vector of the same arity
  whose component of index \<open>i\<close> is \<open>func\<close> applied to the component of index \<open>i\<close> of
  the argument: the components of the result are the components of the argument mapped
  through \<open>func\<close>, one by one, so that no component of the result depends on another
  component of the argument.
\<close>

theorem VEC_FCALL_componentwise:
  "VEC_FCALL2 func (Vector2 a1 a2) = Vector2 (func a1) (func a2) \<and>
   VEC_FCALL3 func (Vector3 b1 b2 b3) = Vector3 (func b1) (func b2) (func b3) \<and>
   VEC_FCALL4 func (Vector4 c1 c2 c3 c4) = Vector4 (func c1) (func c2) (func c3) (func c4) \<and>
   components2 (VEC_FCALL2 func v2) = map func (components2 v2) \<and>
   components3 (VEC_FCALL3 func v3) = map func (components3 v3) \<and>
   components4 (VEC_FCALL4 func v4) = map func (components4 v4)"
  by (simp add: VEC_FCALL2_def VEC_FCALL3_def VEC_FCALL4_def
      components2_def components3_def components4_def)

subsection \<open>clamp\<close>

text \<open>
  C6. With \<open>lo \<le> hi\<close>, every component of \<open>clamp(v, lo, hi)\<close> lies between \<open>lo\<close> and
  \<open>hi\<close>, at arities 2, 3 and 4, and the result is the argument with the scalar clamp
  applied to each component with the same two bounds. The components are of a linearly
  ordered type (every value comparable, as finite floating-point values are).
\<close>

theorem clamp_within_bounds:
  assumes "lo \<le> hi"
  shows "(\<forall>c \<in> set (components2 (clamp2 v2 lo hi)). lo \<le> c \<and> c \<le> hi) \<and>
         (\<forall>c \<in> set (components3 (clamp3 v3 lo hi)). lo \<le> c \<and> c \<le> hi) \<and>
         (\<forall>c \<in> set (components4 (clamp4 v4 lo hi)). lo \<le> c \<and> c \<le> hi) \<and>
         components2 (clamp2 v2 lo hi) = map (\<lambda>a. clamp_s a lo hi) (components2 v2) \<and>
         components3 (clamp3 v3 lo hi) = map (\<lambda>a. clamp_s a lo hi) (components3 v3) \<and>
         components4 (clamp4 v4 lo hi) = map (\<lambda>a. clamp_s a lo hi) (components4 v4)"
  using assms
  by (simp add: clamp2_def clamp3_def clamp4_def clamp_s_def
      components2_def components3_def components4_def)

theorem clamp_within_bounds_witness:
  "(0::real) \<le> 3 \<and>
   components2 (clamp2 (Vector2 (- 1) 5) 0 (3::real)) = [0, 3] \<and>
   components3 (clamp3 (Vector3 (- 1) 2 5) 0 (3::real)) = [0, 2, 3] \<and>
   components4 (clamp4 (Vector4 (- 1) 2 5 3) 0 (3::real)) = [0, 2, 3, 3]"
proof -
  have le: "(0::real) \<le> 3" by simp
  show ?thesis
    using le clamp_within_bounds
      [OF le, of "Vector2 (- 1) 5" "Vector3 (- 1) 2 5" "Vector4 (- 1) 2 5 3"]
    by (simp add: components2_def components3_def components4_def clamp_s_def)
qed

end
